theory Spec2Isabelle
  imports Complex_Main
begin

section \<open>The notebook cell of \<open>src/preprocessing/dask_ml.ipynb\<close>\<close>

text \<open>
  The repository is one notebook cell: thirteen statements, executed once, top to
  bottom, each a call into dask, pandas or scikit-learn. The cell has no branch, no
  loop and no \<^verbatim>\<open>try\<close>. It is modelled as the list of its statements, run by a small
  interpreter over the cell's namespace. The libraries are not part of the repository:
  they are a parameter of the model (a record of functions, one per call the cell
  makes), so that everything proved about the cell holds for every behaviour of the
  libraries.
\<close>

subsection \<open>Exceptions\<close>

text \<open>
  A library call that fails gives the library's own description of what went wrong
  (\<^verbatim>\<open>FileNotFoundError\<close>, \<^verbatim>\<open>KeyError: 'review'\<close>,
  \<^verbatim>\<open>ValueError: invalid literal for int()\<close>, ...): the \<open>Inl\<close> side of its result. \<open>call\<close>
  turns it into the exception \<open>Raised\<close> that the statement making the call raises.
  \<open>NameError\<close> is what Python itself raises when a statement reads a name that no
  earlier statement has bound.
\<close>

datatype exn = NameError string | Raised string

definition and_then :: "'e + 'a \<Rightarrow> ('a \<Rightarrow> 'e + 'b) \<Rightarrow> 'e + 'b" where
  "and_then r k = (case r of Inl e \<Rightarrow> Inl e | Inr x \<Rightarrow> k x)"

definition call :: "string + 'a \<Rightarrow> exn + 'a" where
  "call r = (case r of Inl msg \<Rightarrow> Inl (Raised msg) | Inr x \<Rightarrow> Inr x)"

definition lookup :: "string \<Rightarrow> 'a option \<Rightarrow> exn + 'a" where
  "lookup name v = (case v of None \<Rightarrow> Inl (NameError name) | Some x \<Rightarrow> Inr x)"

text \<open>
  A statement is evaluated piece by piece in a namespace \<open>s\<close>. \<open>attempt s r k\<close> evaluates
  the piece \<open>r\<close> (a name or a call on values): if it raises, the statement raises and the
  namespace stays \<open>s\<close>; otherwise the statement goes on with \<open>k\<close>.

  A method of a mutable object may have changed the object by the time it raises
  (\<^verbatim>\<open>fit\<close> and \<^verbatim>\<open>fit_transform\<close> set attributes of the estimator as they go). Such a
  call gives, when it fails, its message together with the object as it left it, and
  \<open>method_call r left k\<close> raises with the namespace \<open>left obj\<close>, in which the name still
  refers to that object.
\<close>

definition attempt :: "'s \<Rightarrow> exn + 'a \<Rightarrow> ('a \<Rightarrow> (exn \<times> 's) + 's) \<Rightarrow> (exn \<times> 's) + 's" where
  "attempt s r k = (case r of Inl e \<Rightarrow> Inl (e, s) | Inr x \<Rightarrow> k x)"

definition method_call ::
  "(string \<times> 'obj) + 'a \<Rightarrow> ('obj \<Rightarrow> 's) \<Rightarrow> ('a \<Rightarrow> (exn \<times> 's) + 's) \<Rightarrow> (exn \<times> 's) + 's" where
  "method_call r left k =
     (case r of Inl (msg, obj) \<Rightarrow> Inl (Raised msg, left obj) | Inr x \<Rightarrow> k x)"

subsection \<open>The libraries the cell calls\<close>

text \<open>
  One field per library call of the cell, under the name the cell uses. Every call may
  raise. \<open>'w\<close> is what a call can read and the cell does not pass: the files on disk
  and the process-wide random generator. The other type parameters are the libraries'
  own objects: \<open>'ddf\<close> a lazy dask frame, \<open>'pdf\<close> a pandas frame, \<open>'cell\<close> a value
  stored in a column, \<open>'vec\<close> a \<^verbatim>\<open>TfidfVectorizer\<close>, \<open>'mat\<close> a feature matrix, \<open>'mdl\<close> a
  \<^verbatim>\<open>LogisticRegression\<close>. A method of a mutable object (\<open>fit_transform\<close>, \<open>transform\<close>,
  \<open>fit\<close>, \<open>predict\<close>) returns the object as the call leaves it, also when it raises.
  Frames and columns are values: a call on one gives a new one.

  \<^verbatim>\<open>Series.astype\<close> converts value by value and raises when one value cannot be
  converted: \<open>py_str\<close> and \<open>py_int\<close> are the conversions of one value
  (\<^verbatim>\<open>astype(str)\<close> and \<^verbatim>\<open>astype(int)\<close>), and \<open>astype\<close> below applies one to a column.
\<close>

record ('w, 'ddf, 'pdf, 'cell, 'vec, 'mat, 'mdl) library =
  read_csv :: "'w \<Rightarrow> string \<Rightarrow> string + 'ddf"
  dropna :: "'w \<Rightarrow> 'ddf \<Rightarrow> string list \<Rightarrow> string + 'ddf"
  sample :: "'w \<Rightarrow> 'ddf \<Rightarrow> real \<Rightarrow> string + 'ddf"
  compute :: "'w \<Rightarrow> 'ddf \<Rightarrow> string + 'pdf"
  getitem :: "'w \<Rightarrow> 'pdf \<Rightarrow> string \<Rightarrow> string + 'cell list"
  py_str :: "'cell \<Rightarrow> string"
  py_int :: "'cell \<Rightarrow> string + int"
  train_test_split ::
    "'w \<Rightarrow> string list \<Rightarrow> int list \<Rightarrow> real \<Rightarrow> int
      \<Rightarrow> string + (string list \<times> string list \<times> int list \<times> int list)"
  TfidfVectorizer :: "'w \<Rightarrow> nat \<Rightarrow> string + 'vec"
  fit_transform :: "'w \<Rightarrow> 'vec \<Rightarrow> string list \<Rightarrow> (string \<times> 'vec) + ('vec \<times> 'mat)"
  transform :: "'w \<Rightarrow> 'vec \<Rightarrow> string list \<Rightarrow> (string \<times> 'vec) + ('vec \<times> 'mat)"
  LogisticRegression :: "'w \<Rightarrow> string + 'mdl"
  fit :: "'w \<Rightarrow> 'mdl \<Rightarrow> 'mat \<Rightarrow> int list \<Rightarrow> (string \<times> 'mdl) + 'mdl"
  predict :: "'w \<Rightarrow> 'mdl \<Rightarrow> 'mat \<Rightarrow> (string \<times> 'mdl) + ('mdl \<times> int list)"
  classification_report :: "'w \<Rightarrow> int list \<Rightarrow> int list \<Rightarrow> string + string"

fun astype :: "('cell \<Rightarrow> string + 'a) \<Rightarrow> 'cell list \<Rightarrow> string + 'a list" where
  "astype conv [] = Inr []"
| "astype conv (c # cs) =
     and_then (conv c) (\<lambda>v. and_then (astype conv cs) (\<lambda>vs. Inr (v # vs)))"

subsection \<open>The cell's namespace\<close>

text \<open>
  One field per name the cell binds (\<open>None\<close>: not bound yet), and what the cell has
  printed. The cell's \<^verbatim>\<open>y\<close> is the field \<open>y_labels\<close>.
\<close>

record ('ddf, 'pdf, 'vec, 'mat, 'mdl) namespace =
  df :: "'ddf option"
  df_sample :: "'pdf option"
  X_raw :: "string list option"
  y_labels :: "int list option"
  X_train_raw :: "string list option"
  X_test_raw :: "string list option"
  y_train :: "int list option"
  y_test :: "int list option"
  vectorizer :: "'vec option"
  X_train :: "'mat option"
  X_test :: "'mat option"
  model :: "'mdl option"
  y_pred :: "int list option"
  stdout :: "string list"

definition fresh :: "('ddf, 'pdf, 'vec, 'mat, 'mdl) namespace" where
  "fresh = \<lparr>df = None, df_sample = None, X_raw = None, y_labels = None,
      X_train_raw = None, X_test_raw = None, y_train = None, y_test = None,
      vectorizer = None, X_train = None, X_test = None, model = None, y_pred = None,
      stdout = []\<rparr>"

subsection \<open>The statements\<close>

text \<open>
  The statements of the cell, in the order of the source (lines 33 to 59; the five
  imports before them bind the libraries' names, which the record \<open>library\<close> stands for):
  \<^verbatim>\<open>
  df = dd.read_csv("output.csv")                              ReadCsv
  df = df.dropna(subset=['review', 'sentiment'])              DropNa
  df_sample = df.sample(frac=0.2).compute()                   Sample
  X_raw = df_sample['review'].astype(str)                     ExtractText
  y = df_sample['sentiment'].astype(int)                      ExtractLabels
  X_train_raw, X_test_raw, y_train, y_test = train_test_split(
      X_raw, y, test_size=0.2, random_state=42)               Split
  vectorizer = TfidfVectorizer(max_features=1000)             MakeVectorizer
  X_train = vectorizer.fit_transform(X_train_raw)             FitTransform
  X_test = vectorizer.transform(X_test_raw)                   Transform
  model = LogisticRegression()                                MakeModel
  model.fit(X_train, y_train)                                 Fit
  y_pred = model.predict(X_test)                              Predict
  print(classification_report(y_test, y_pred))                Report
  \<close>
\<close>

datatype stmt =
  ReadCsv | DropNa | Sample | ExtractText | ExtractLabels | Split | MakeVectorizer
  | FitTransform | Transform | MakeModel | Fit | Predict | Report

definition notebook :: "stmt list" where
  "notebook = [ReadCsv, DropNa, Sample, ExtractText, ExtractLabels, Split,
     MakeVectorizer, FitTransform, Transform, MakeModel, Fit, Predict, Report]"

text \<open>
  \<open>step L w c s\<close> executes the statement \<open>c\<close> in the namespace \<open>s\<close>: the namespace
  after it, or the exception it raised with the namespace it left. A statement binds
  its target only after its right-hand side has been evaluated without an exception.
\<close>

fun step ::
  "('w, 'ddf, 'pdf, 'cell, 'vec, 'mat, 'mdl) library \<Rightarrow> 'w \<Rightarrow> stmt
    \<Rightarrow> ('ddf, 'pdf, 'vec, 'mat, 'mdl) namespace
    \<Rightarrow> (exn \<times> ('ddf, 'pdf, 'vec, 'mat, 'mdl) namespace)
        + ('ddf, 'pdf, 'vec, 'mat, 'mdl) namespace" where
  "step L w ReadCsv s =
     attempt s (call (read_csv L w ''output.csv'')) (\<lambda>d.
     Inr (s\<lparr>df := Some d\<rparr>))"
| "step L w DropNa s =
     attempt s (lookup ''df'' (df s)) (\<lambda>d.
     attempt s (call (dropna L w d [''review'', ''sentiment''])) (\<lambda>d'.
     Inr (s\<lparr>df := Some d'\<rparr>)))"
| "step L w Sample s =
     attempt s (lookup ''df'' (df s)) (\<lambda>d.
     attempt s (call (sample L w d 0.2)) (\<lambda>d'.
     attempt s (call (compute L w d')) (\<lambda>p.
     Inr (s\<lparr>df_sample := Some p\<rparr>))))"
| "step L w ExtractText s =
     attempt s (lookup ''df_sample'' (df_sample s)) (\<lambda>p.
     attempt s (call (getitem L w p ''review'')) (\<lambda>col.
     attempt s (call (astype (\<lambda>c. Inr (py_str L c)) col)) (\<lambda>xs.
     Inr (s\<lparr>X_raw := Some xs\<rparr>))))"
| "step L w ExtractLabels s =
     attempt s (lookup ''df_sample'' (df_sample s)) (\<lambda>p.
     attempt s (call (getitem L w p ''sentiment'')) (\<lambda>col.
     attempt s (call (astype (py_int L) col)) (\<lambda>ys.
     Inr (s\<lparr>y_labels := Some ys\<rparr>))))"
| "step L w Split s =
     attempt s (lookup ''X_raw'' (X_raw s)) (\<lambda>xs.
     attempt s (lookup ''y'' (y_labels s)) (\<lambda>ys.
     attempt s (call (train_test_split L w xs ys 0.2 42)) (\<lambda>(xtr, xte, ytr, yte).
     Inr (s\<lparr>X_train_raw := Some xtr, X_test_raw := Some xte,
            y_train := Some ytr, y_test := Some yte\<rparr>))))"
| "step L w MakeVectorizer s =
     attempt s (call (TfidfVectorizer L w 1000)) (\<lambda>v.
     Inr (s\<lparr>vectorizer := Some v\<rparr>))"
| "step L w FitTransform s =
     attempt s (lookup ''vectorizer'' (vectorizer s)) (\<lambda>v.
     attempt s (lookup ''X_train_raw'' (X_train_raw s)) (\<lambda>xs.
     method_call (fit_transform L w v xs) (\<lambda>v'. s\<lparr>vectorizer := Some v'\<rparr>) (\<lambda>(v', m).
     Inr (s\<lparr>vectorizer := Some v', X_train := Some m\<rparr>))))"
| "step L w Transform s =
     attempt s (lookup ''vectorizer'' (vectorizer s)) (\<lambda>v.
     attempt s (lookup ''X_test_raw'' (X_test_raw s)) (\<lambda>xs.
     method_call (transform L w v xs) (\<lambda>v'. s\<lparr>vectorizer := Some v'\<rparr>) (\<lambda>(v', m).
     Inr (s\<lparr>vectorizer := Some v', X_test := Some m\<rparr>))))"
| "step L w MakeModel s =
     attempt s (call (LogisticRegression L w)) (\<lambda>m.
     Inr (s\<lparr>model := Some m\<rparr>))"
| "step L w Fit s =
     attempt s (lookup ''model'' (model s)) (\<lambda>m.
     attempt s (lookup ''X_train'' (X_train s)) (\<lambda>x.
     attempt s (lookup ''y_train'' (y_train s)) (\<lambda>ys.
     method_call (fit L w m x ys) (\<lambda>m'. s\<lparr>model := Some m'\<rparr>) (\<lambda>m'.
     Inr (s\<lparr>model := Some m'\<rparr>)))))"
| "step L w Predict s =
     attempt s (lookup ''model'' (model s)) (\<lambda>m.
     attempt s (lookup ''X_test'' (X_test s)) (\<lambda>x.
     method_call (predict L w m x) (\<lambda>m'. s\<lparr>model := Some m'\<rparr>) (\<lambda>(m', yp).
     Inr (s\<lparr>model := Some m', y_pred := Some yp\<rparr>))))"
| "step L w Report s =
     attempt s (lookup ''y_test'' (y_test s)) (\<lambda>yt.
     attempt s (lookup ''y_pred'' (y_pred s)) (\<lambda>yp.
     attempt s (call (classification_report L w yt yp)) (\<lambda>text.
     Inr (s\<lparr>stdout := stdout s @ [text]\<rparr>))))"

subsection \<open>Running a list of statements\<close>

text \<open>
  Statements run in order. The result is the list of the statements that were started,
  the namespace when the run ended (after an exception: as the failing statement left
  it), and the exception that ended it (\<open>None\<close> when the last statement finished). The
  cell has no \<^verbatim>\<open>try\<close>: the first exception ends the run and is what the caller gets.
\<close>

fun exec ::
  "('w, 'ddf, 'pdf, 'cell, 'vec, 'mat, 'mdl) library \<Rightarrow> 'w \<Rightarrow> stmt list
    \<Rightarrow> ('ddf, 'pdf, 'vec, 'mat, 'mdl) namespace
    \<Rightarrow> stmt list \<times> ('ddf, 'pdf, 'vec, 'mat, 'mdl) namespace \<times> exn option" where
  "exec L w [] s = ([], s, None)"
| "exec L w (c # cs) s =
     (case step L w c s of
        Inl (e, s') \<Rightarrow> ([c], s', Some e)
      | Inr s' \<Rightarrow> (case exec L w cs s' of (tr, sf, r) \<Rightarrow> (c # tr, sf, r)))"

definition run ::
  "('w, 'ddf, 'pdf, 'cell, 'vec, 'mat, 'mdl) library \<Rightarrow> 'w
    \<Rightarrow> stmt list \<times> ('ddf, 'pdf, 'vec, 'mat, 'mdl) namespace \<times> exn option" where
  "run L w = exec L w notebook fresh"

section \<open>The support column of the classification report\<close>

text \<open>
  The cell prints what \<^verbatim>\<open>classification_report\<close> returns; scikit-learn, which builds
  the report, is not under \<^verbatim>\<open>src/\<close>. What the report's support column holds is taken
  from the spec, which says that the report gives "support per class" and defines
  support in its glossary.
\<close>

text \<open>
  Modelled from the spec: the support of a class in \<^verbatim>\<open>classification_report\<close>
  (scikit-learn, not under \<^verbatim>\<open>src/\<close>). The glossary: "Support: number of true instances
  of a class in the evaluation set".
\<close>

definition support :: "int list \<Rightarrow> int \<Rightarrow> nat" where
  "support y_true c = length (filter (\<lambda>l. l = c) y_true)"

text \<open>
  Modelled from the spec: the classes that get a row in the report of
  \<^verbatim>\<open>classification_report\<close> (scikit-learn, not under \<^verbatim>\<open>src/\<close>). The report is "per
  class" and compares "predictions to true labels": a class is a label that occurs
  among the true or the predicted labels, each once, in ascending order as in the
  output stored in the notebook.
\<close>

definition report_classes :: "int list \<Rightarrow> int list \<Rightarrow> int list" where
  "report_classes y_true predicted = sort (remdups (y_true @ predicted))"

text \<open>
  Modelled from the spec: the support column of the report of
  \<^verbatim>\<open>classification_report\<close> (scikit-learn, not under \<^verbatim>\<open>src/\<close>): one row per class,
  the class with its support.
\<close>

definition support_column :: "int list \<Rightarrow> int list \<Rightarrow> (int \<times> nat) list" where
  "support_column y_true predicted =
     map (\<lambda>c. (c, support y_true c)) (report_classes y_true predicted)"

text \<open>
  The report stored in the notebook (lines 15 to 18 of the source): the two class rows
  with their support, and the support printed in the \<^verbatim>\<open>accuracy\<close> row.
\<close>

definition stored_class_rows :: "(int \<times> nat) list" where
  "stored_class_rows = [(0, 106), (1, 3369)]"

definition stored_total :: nat where
  "stored_total = 3475"

section \<open>A stand-in library for concrete runs\<close>

text \<open>
  To run the cell on concrete files, the library parameter has to be something. This
  stand-in gives every call a result of the right shape and nothing more: it is not a
  model of dask, pandas or scikit-learn, and no statement about them rests on it. A
  file is a list of rows (review, sentiment), both as written in the CSV; a row with an
  empty field counts as missing; only \<^verbatim>\<open>0\<close> and \<^verbatim>\<open>1\<close> convert to integers.
\<close>

type_synonym stub_files = "(string \<times> (string \<times> string) list) list"

definition stub_library ::
  "(stub_files, (string \<times> string) list, (string \<times> string) list, string,
    nat, nat list, int) library" where
  "stub_library = \<lparr>
     read_csv = (\<lambda>w path.
       case map_of w path of None \<Rightarrow> Inl ''FileNotFoundError'' | Some rows \<Rightarrow> Inr rows),
     dropna = (\<lambda>w d cols. Inr (filter (\<lambda>(r, t). r \<noteq> [] \<and> t \<noteq> []) d)),
     sample = (\<lambda>w d frac. Inr d),
     compute = (\<lambda>w d. Inr d),
     getitem = (\<lambda>w p col.
       if col = ''review'' then Inr (map fst p)
       else if col = ''sentiment'' then Inr (map snd p)
       else Inl ''KeyError''),
     py_str = (\<lambda>c. c),
     py_int = (\<lambda>c.
       if c = ''0'' then Inr 0 else if c = ''1'' then Inr 1 else Inl ''ValueError''),
     train_test_split = (\<lambda>w xs ys test_size seed. Inr (tl xs, take 1 xs, tl ys, take 1 ys)),
     TfidfVectorizer = (\<lambda>w max_features. Inr max_features),
     fit_transform = (\<lambda>w v xs. Inr (v, map length xs)),
     transform = (\<lambda>w v xs. Inr (v, map length xs)),
     LogisticRegression = (\<lambda>w. Inr 0),
     fit = (\<lambda>w m x ys. Inr (case ys of [] \<Rightarrow> m | l # _ \<Rightarrow> l)),
     predict = (\<lambda>w m x. Inr (m, map (\<lambda>_. m) x)),
     classification_report = (\<lambda>w yt yp. Inr ''report'')\<rparr>"

definition files_ok :: stub_files where
  "files_ok = [(''output.csv'', [(''good film'', ''1''), (''dull'', ''0'')])]"

definition files_bad_label :: stub_files where
  "files_bad_label = [(''output.csv'', [(''fine'', ''1''), (''bad'', ''five'')])]"

section \<open>Properties of the interpreter\<close>



text \<open>
  The statements started are an initial part of the program, in its order: none is
  skipped, repeated or run after a later one.
\<close>

lemma exec_trace_prefix:
  "exec L w cs s = (tr, sf, r) \<Longrightarrow> \<exists>rest. cs = tr @ rest"
proof (induction cs arbitrary: s tr sf r)
  case Nil
  then show ?case by simp
next
  case (Cons c cs)
  show ?case
  proof (cases "step L w c s")
    case (Inl e)
    with Cons.prems show ?thesis by (auto split: prod.splits)
  next
    case (Inr s')
    obtain tr' sf' r' where e: "exec L w cs s' = (tr', sf', r')"
      by (cases "exec L w cs s'") auto
    from Cons.IH [OF e] obtain rest where "cs = tr' @ rest" by blast
    with Cons.prems Inr e show ?thesis by auto
  qed
qed

section \<open>Coercion of the two columns\<close>

text \<open>
  \<^verbatim>\<open>astype(str)\<close> cannot fail; \<^verbatim>\<open>astype(int)\<close> succeeds exactly when every value
  converts, and then gives the converted values in the order of the column.
\<close>

lemma astype_total:
  "astype (\<lambda>c. Inr (f c)) cs = Inr (map f cs)"
  by (induction cs) (simp_all add: and_then_def)


lemma astype_raises:
  assumes "c \<in> set cs" "\<forall>i. conv c \<noteq> Inr i"
  shows "\<exists>msg. astype conv cs = Inl msg"
  using assms
  by (induction cs) (auto simp: and_then_def split: sum.splits)

section \<open>The calls of a run that finishes\<close>

text \<open>
  The data flow of the cell, for every behaviour of the libraries. A run that finishes
  has made exactly these calls, each on the results of the ones before it: the frame is
  cleaned before it is sampled; the split gets the coerced texts and labels with
  \<^verbatim>\<open>test_size=0.2\<close> and \<^verbatim>\<open>random_state=42\<close>; the vectorizer is made with
  \<^verbatim>\<open>max_features=1000\<close>, \<open>fit_transform\<close> gets the training texts only, and \<open>transform\<close>
  gets the test texts and the vectorizer as \<open>fit_transform\<close> left it; the model is fitted
  on the training features and labels; the report compares the test labels with the
  predictions for the test features. What each call returns is the library's business.
\<close>

lemma successful_run_calls:
  "(case run L w of
      (tr, sf, Some e) \<Rightarrow> True
    | (tr, sf, None) \<Rightarrow>
        (\<exists>d0 d1 d2 p rs cs xs ys xtr xte ytr yte v0 v1 xm v2 xt m0 m1 m2 yp text.
           read_csv L w ''output.csv'' = Inr d0 \<and>
           dropna L w d0 [''review'', ''sentiment''] = Inr d1 \<and>
           sample L w d1 0.2 = Inr d2 \<and>
           compute L w d2 = Inr p \<and>
           getitem L w p ''review'' = Inr rs \<and> xs = map (py_str L) rs \<and>
           getitem L w p ''sentiment'' = Inr cs \<and> astype (py_int L) cs = Inr ys \<and>
           train_test_split L w xs ys 0.2 42 = Inr (xtr, xte, ytr, yte) \<and>
           TfidfVectorizer L w 1000 = Inr v0 \<and>
           fit_transform L w v0 xtr = Inr (v1, xm) \<and>
           transform L w v1 xte = Inr (v2, xt) \<and>
           LogisticRegression L w = Inr m0 \<and>
           fit L w m0 xm ytr = Inr m1 \<and>
           predict L w m1 xt = Inr (m2, yp) \<and>
           classification_report L w yte yp = Inr text \<and>
           tr = notebook \<and>
           sf = \<lparr>df = Some d1, df_sample = Some p, X_raw = Some xs, y_labels = Some ys,
             X_train_raw = Some xtr, X_test_raw = Some xte, y_train = Some ytr,
             y_test = Some yte, vectorizer = Some v2, X_train = Some xm, X_test = Some xt,
             model = Some m2, y_pred = Some yp, stdout = [text]\<rparr>))"
  unfolding run_def notebook_def
  by (simp add: attempt_def method_call_def and_then_def call_def lookup_def fresh_def
      astype_total
      split: sum.split prod.split option.split)

section \<open>A failing library call ends the cell\<close>

text \<open>
  Whatever the libraries do: when the cell ends with an exception, the exception is
  one that a library call raised (the cell reads no name before binding it, so Python
  itself never raises), and nothing has been printed.
\<close>

lemma run_failure_cases:
  "(case run L w of
      (tr, s, None) \<Rightarrow> True
    | (tr, s, Some e) \<Rightarrow> (\<exists>msg. e = Raised msg) \<and> stdout s = [])"
  unfolding run_def notebook_def
  by (simp add: attempt_def method_call_def and_then_def call_def lookup_def fresh_def
      split: sum.split prod.split option.split)

text \<open>
  C8. The cell validates nothing and catches nothing. The library calls of the cell are
  taken in the order the cell makes them, for any libraries \<open>L\<close> and any files and
  random state \<open>w\<close>. For each call: if the calls before it have returned and this call
  fails with the message \<open>msg\<close>, then the run of the cell ends with exactly the
  exception \<open>Raised msg\<close>; the statements started are the statements of the cell up to
  the one making the call, and no later one; the namespace holds what the statements
  before had bound, the failing statement has bound nothing, and nothing has been
  printed. An estimator whose method fails (\<^verbatim>\<open>fit_transform\<close>, \<^verbatim>\<open>transform\<close>, \<^verbatim>\<open>fit\<close>,
  \<^verbatim>\<open>predict\<close>) is in the namespace as the failing call left it (\<open>obj\<close>). The calls are:
  \<^verbatim>\<open>read_csv\<close> (a missing file), \<^verbatim>\<open>dropna\<close>, \<^verbatim>\<open>sample\<close>, \<^verbatim>\<open>compute\<close>, the two column
  selections (a missing column), \<^verbatim>\<open>astype(int)\<close> (a value that does not convert),
  \<^verbatim>\<open>train_test_split\<close>, the two constructors, the four methods and
  \<^verbatim>\<open>classification_report\<close>. The last line is the only way the cell finishes: every
  call has returned, and the report is printed.
\<close>

theorem library_failure_ends_run:
  "(\<forall>msg. read_csv L w ''output.csv'' = Inl msg \<longrightarrow>
      run L w = (take 1 notebook, fresh, Some (Raised msg))) \<and>
   (\<forall>d0. read_csv L w ''output.csv'' = Inr d0 \<longrightarrow>
   (let s1 = fresh\<lparr>df := Some d0\<rparr> in
   (\<forall>msg. dropna L w d0 [''review'', ''sentiment''] = Inl msg \<longrightarrow>
      run L w = (take 2 notebook, s1, Some (Raised msg))) \<and>
   (\<forall>d1. dropna L w d0 [''review'', ''sentiment''] = Inr d1 \<longrightarrow>
   (let s2 = s1\<lparr>df := Some d1\<rparr> in
   (\<forall>msg. sample L w d1 0.2 = Inl msg \<longrightarrow>
      run L w = (take 3 notebook, s2, Some (Raised msg))) \<and>
   (\<forall>d2. sample L w d1 0.2 = Inr d2 \<longrightarrow>
   (\<forall>msg. compute L w d2 = Inl msg \<longrightarrow>
      run L w = (take 3 notebook, s2, Some (Raised msg))) \<and>
   (\<forall>p. compute L w d2 = Inr p \<longrightarrow>
   (let s3 = s2\<lparr>df_sample := Some p\<rparr> in
   (\<forall>msg. getitem L w p ''review'' = Inl msg \<longrightarrow>
      run L w = (take 4 notebook, s3, Some (Raised msg))) \<and>
   (\<forall>rs. getitem L w p ''review'' = Inr rs \<longrightarrow>
   (let s4 = s3\<lparr>X_raw := Some (map (py_str L) rs)\<rparr> in
   (\<forall>msg. getitem L w p ''sentiment'' = Inl msg \<longrightarrow>
      run L w = (take 5 notebook, s4, Some (Raised msg))) \<and>
   (\<forall>cs. getitem L w p ''sentiment'' = Inr cs \<longrightarrow>
   (\<forall>msg. astype (py_int L) cs = Inl msg \<longrightarrow>
      run L w = (take 5 notebook, s4, Some (Raised msg))) \<and>
   (\<forall>ys. astype (py_int L) cs = Inr ys \<longrightarrow>
   (let s5 = s4\<lparr>y_labels := Some ys\<rparr> in
   (\<forall>msg. train_test_split L w (map (py_str L) rs) ys 0.2 42 = Inl msg \<longrightarrow>
      run L w = (take 6 notebook, s5, Some (Raised msg))) \<and>
   (\<forall>xtr xte ytr yte.
      train_test_split L w (map (py_str L) rs) ys 0.2 42 = Inr (xtr, xte, ytr, yte) \<longrightarrow>
   (let s6 = s5\<lparr>X_train_raw := Some xtr, X_test_raw := Some xte,
             y_train := Some ytr, y_test := Some yte\<rparr> in
   (\<forall>msg. TfidfVectorizer L w 1000 = Inl msg \<longrightarrow>
      run L w = (take 7 notebook, s6, Some (Raised msg))) \<and>
   (\<forall>v0. TfidfVectorizer L w 1000 = Inr v0 \<longrightarrow>
   (let s7 = s6\<lparr>vectorizer := Some v0\<rparr> in
   (\<forall>msg obj. fit_transform L w v0 xtr = Inl (msg, obj) \<longrightarrow>
      run L w = (take 8 notebook, s7\<lparr>vectorizer := Some obj\<rparr>, Some (Raised msg))) \<and>
   (\<forall>v1 xm. fit_transform L w v0 xtr = Inr (v1, xm) \<longrightarrow>
   (let s8 = s7\<lparr>vectorizer := Some v1, X_train := Some xm\<rparr> in
   (\<forall>msg obj. transform L w v1 xte = Inl (msg, obj) \<longrightarrow>
      run L w = (take 9 notebook, s8\<lparr>vectorizer := Some obj\<rparr>, Some (Raised msg))) \<and>
   (\<forall>v2 xt. transform L w v1 xte = Inr (v2, xt) \<longrightarrow>
   (let s9 = s8\<lparr>vectorizer := Some v2, X_test := Some xt\<rparr> in
   (\<forall>msg. LogisticRegression L w = Inl msg \<longrightarrow>
      run L w = (take 10 notebook, s9, Some (Raised msg))) \<and>
   (\<forall>m0. LogisticRegression L w = Inr m0 \<longrightarrow>
   (let s10 = s9\<lparr>model := Some m0\<rparr> in
   (\<forall>msg obj. fit L w m0 xm ytr = Inl (msg, obj) \<longrightarrow>
      run L w = (take 11 notebook, s10\<lparr>model := Some obj\<rparr>, Some (Raised msg))) \<and>
   (\<forall>m1. fit L w m0 xm ytr = Inr m1 \<longrightarrow>
   (let s11 = s10\<lparr>model := Some m1\<rparr> in
   (\<forall>msg obj. predict L w m1 xt = Inl (msg, obj) \<longrightarrow>
      run L w = (take 12 notebook, s11\<lparr>model := Some obj\<rparr>, Some (Raised msg))) \<and>
   (\<forall>m2 yp. predict L w m1 xt = Inr (m2, yp) \<longrightarrow>
   (let s12 = s11\<lparr>model := Some m2, y_pred := Some yp\<rparr> in
   (\<forall>msg. classification_report L w yte yp = Inl msg \<longrightarrow>
      run L w = (notebook, s12, Some (Raised msg))) \<and>
   (\<forall>text. classification_report L w yte yp = Inr text \<longrightarrow>
      run L w = (notebook, s12\<lparr>stdout := [text]\<rparr>, None))))))))))))))))))))))))))))"
  unfolding run_def notebook_def
  by (simp add: Let_def attempt_def method_call_def and_then_def call_def lookup_def
      fresh_def astype_total)

text \<open>
  Two runs. In the first a sentiment value is not an integer (\<^verbatim>\<open>five\<close>): the first four
  statements finish, \<^verbatim>\<open>astype(int)\<close> raises, and the run ends there. In the second
  \<^verbatim>\<open>fit\<close> raises after it has changed the model (here to 7): the run ends at the
  eleventh statement with the changed model in the namespace and nothing printed.
\<close>

theorem library_failure_ends_run_witness:
  "run stub_library files_bad_label =
     ([ReadCsv, DropNa, Sample, ExtractText, ExtractLabels],
      fresh\<lparr>df := Some [(''fine'', ''1''), (''bad'', ''five'')],
            df_sample := Some [(''fine'', ''1''), (''bad'', ''five'')],
            X_raw := Some [''fine'', ''bad'']\<rparr>,
      Some (Raised ''ValueError'')) \<and>
   run (stub_library\<lparr>fit := (\<lambda>w m x ys. Inl (''ValueError: one class'', 7))\<rparr>) files_ok =
     ([ReadCsv, DropNa, Sample, ExtractText, ExtractLabels, Split, MakeVectorizer,
       FitTransform, Transform, MakeModel, Fit],
      fresh\<lparr>df := Some [(''good film'', ''1''), (''dull'', ''0'')],
            df_sample := Some [(''good film'', ''1''), (''dull'', ''0'')],
            X_raw := Some [''good film'', ''dull''], y_labels := Some [1, 0],
            X_train_raw := Some [''dull''], X_test_raw := Some [''good film''],
            y_train := Some [0], y_test := Some [1],
            vectorizer := Some 1000, X_train := Some [4], X_test := Some [9],
            model := Some 7\<rparr>,
      Some (Raised ''ValueError: one class''))"
proof -
  have "run stub_library files_bad_label =
     ([ReadCsv, DropNa, Sample, ExtractText, ExtractLabels],
      fresh\<lparr>df := Some [(''fine'', ''1''), (''bad'', ''five'')],
            df_sample := Some [(''fine'', ''1''), (''bad'', ''five'')],
            X_raw := Some [''fine'', ''bad'']\<rparr>,
      Some (Raised ''ValueError''))"
    using library_failure_ends_run [of stub_library files_bad_label]
    by (simp add: Let_def stub_library_def files_bad_label_def and_then_def notebook_def)
  moreover have
    "run (stub_library\<lparr>fit := (\<lambda>w m x ys. Inl (''ValueError: one class'', 7))\<rparr>) files_ok =
     ([ReadCsv, DropNa, Sample, ExtractText, ExtractLabels, Split, MakeVectorizer,
       FitTransform, Transform, MakeModel, Fit],
      fresh\<lparr>df := Some [(''good film'', ''1''), (''dull'', ''0'')],
            df_sample := Some [(''good film'', ''1''), (''dull'', ''0'')],
            X_raw := Some [''good film'', ''dull''], y_labels := Some [1, 0],
            X_train_raw := Some [''dull''], X_test_raw := Some [''good film''],
            y_train := Some [0], y_test := Some [1],
            vectorizer := Some 1000, X_train := Some [4], X_test := Some [9],
            model := Some 7\<rparr>,
      Some (Raised ''ValueError: one class''))"
    using library_failure_ends_run
      [of "stub_library\<lparr>fit := (\<lambda>w m x ys. Inl (''ValueError: one class'', 7))\<rparr>" files_ok]
    by (simp add: Let_def stub_library_def files_ok_def and_then_def notebook_def)
  ultimately show ?thesis by simp
qed

section \<open>The coerced values reach the split, the trainer and the report\<close>






section \<open>The support column sums to the size of the evaluation set\<close>

lemma support_sum:
  assumes "distinct cs" "set ys \<subseteq> set cs"
  shows "(\<Sum>c\<leftarrow>cs. support ys c) = length ys"
proof -
  have "(\<Sum>c\<leftarrow>cs. support ys c) = sum (count_list ys) (set cs)"
    using assms(1) by (simp add: support_def sum_list_distinct_conv_sum_set count_list_eq_length_filter eq_commute)
  also have "\<dots> = length ys"
    using assms(2) by (simp add: sum_count_set)
  finally show ?thesis .
qed

text \<open>
  C4. In the report for the true labels \<open>y_true\<close> and the predictions \<open>predicted\<close>, the
  support values of the class rows sum to the number of true labels, that is, to the
  size of the test set that the cell passes to \<^verbatim>\<open>classification_report\<close>.
\<close>

theorem support_sums_to_test_size:
  "sum_list (map snd (support_column y_true predicted)) = length y_true"
proof -
  have "map snd (support_column y_true predicted) =
      map (support y_true) (report_classes y_true predicted)"
    by (simp add: support_column_def comp_def)
  moreover have "distinct (report_classes y_true predicted)"
    by (simp add: report_classes_def)
  moreover have "set y_true \<subseteq> set (report_classes y_true predicted)"
    by (simp add: report_classes_def)
  ultimately show ?thesis
    by (simp add: support_sum)
qed

text \<open>The report stored in the notebook agrees: 106 + 3369 = 3475.\<close>

lemma stored_report_support:
  "sum_list (map snd stored_class_rows) = stored_total"
  by (simp add: stored_class_rows_def stored_total_def)

end
